theory Spec2Isabelle
  imports Complex_Main
begin

section \<open>JavaScript values used by server.js\<close>

text \<open>
  Candle fields and indicator values are finite JavaScript numbers; they are modelled as
  reals (comparisons of finite doubles agree with the order of the reals; rounding of the
  few arithmetic operations is not modelled). The one division whose divisor comes from
  the input, \<^verbatim>\<open>(current.close - previous.close) / previous.close\<close>, can leave the
  finite range, so its result lives in \<open>jsnum\<close>, which adds the two infinities and NaN.
\<close>

datatype jsnum = Fin real | PosInf | NegInf | NaN

definition js_div :: "real \<Rightarrow> real \<Rightarrow> jsnum" where
  "js_div a b =
     (if b \<noteq> 0 then Fin (a / b)
      else if a > 0 then PosInf
      else if a < 0 then NegInf
      else NaN)"

definition js_mul :: "jsnum \<Rightarrow> real \<Rightarrow> jsnum" where
  "js_mul x c =
     (case x of
        Fin a \<Rightarrow> Fin (a * c)
      | PosInf \<Rightarrow> (if c > 0 then PosInf else if c < 0 then NegInf else NaN)
      | NegInf \<Rightarrow> (if c > 0 then NegInf else if c < 0 then PosInf else NaN)
      | NaN \<Rightarrow> NaN)"

definition js_gt :: "jsnum \<Rightarrow> real \<Rightarrow> bool" where
  "js_gt x c = (case x of Fin a \<Rightarrow> a > c | PosInf \<Rightarrow> True | NegInf \<Rightarrow> False | NaN \<Rightarrow> False)"

definition js_lt :: "jsnum \<Rightarrow> real \<Rightarrow> bool" where
  "js_lt x c = (case x of Fin a \<Rightarrow> a < c | PosInf \<Rightarrow> False | NegInf \<Rightarrow> True | NaN \<Rightarrow> False)"

text \<open>Exceptions are values. \<open>LibraryError\<close> is whatever a library call throws.\<close>

datatype exn = TypeError | Error string | LibraryError string

text \<open>
  \<open>try_bind\<close> sequences two statements of a \<^verbatim>\<open>try\<close> block: the second runs only when
  the first did not throw.
\<close>

definition try_bind :: "exn + 'a \<Rightarrow> ('a \<Rightarrow> exn + 'b) \<Rightarrow> exn + 'b" where
  "try_bind m f = (case m of Inl e \<Rightarrow> Inl e | Inr x \<Rightarrow> f x)"

text \<open>\<^verbatim>\<open>s.includes(sub)\<close> on strings: \<open>sub\<close> occurs in \<open>s\<close> as a contiguous substring.\<close>

fun startsWith :: "string \<Rightarrow> string \<Rightarrow> bool" where
  "startsWith s [] = True"
| "startsWith [] (p # ps) = False"
| "startsWith (c # cs) (p # ps) = (c = p \<and> startsWith cs ps)"

fun str_includes :: "string \<Rightarrow> string \<Rightarrow> bool" where
  "str_includes [] sub = startsWith [] sub"
| "str_includes (c # cs) sub = (startsWith (c # cs) sub \<or> str_includes cs sub)"

text \<open>\<^verbatim>\<open>xs.includes(x)\<close> on arrays of strings: some element equals \<open>x\<close>.\<close>

fun arr_includes :: "'a list \<Rightarrow> 'a \<Rightarrow> bool" where
  "arr_includes [] x = False"
| "arr_includes (y # ys) x = (y = x \<or> arr_includes ys x)"

text \<open>
  \<^verbatim>\<open>xs[xs.length - 1]\<close> and \<^verbatim>\<open>xs[0]\<close>: reading an empty array gives
  \<^verbatim>\<open>undefined\<close>, here \<open>None\<close>.
\<close>

definition arr_last :: "'a list \<Rightarrow> 'a option" where
  "arr_last xs = (if xs = [] then None else Some (last xs))"

definition arr_first :: "'a list \<Rightarrow> 'a option" where
  "arr_first xs = (case xs of [] \<Rightarrow> None | x # _ \<Rightarrow> Some x)"

text \<open>
  \<^verbatim>\<open>v || d\<close>: the left operand when it is truthy, else \<open>d\<close>. A number is falsy when it
  is 0 (or NaN), \<^verbatim>\<open>undefined\<close> is falsy, an object is always truthy.
\<close>

definition num_or :: "real option \<Rightarrow> real \<Rightarrow> real" where
  "num_or v d = (case v of None \<Rightarrow> d | Some x \<Rightarrow> if x = 0 then d else x)"

definition obj_or :: "'a option \<Rightarrow> 'a \<Rightarrow> 'a" where
  "obj_or v d = (case v of None \<Rightarrow> d | Some x \<Rightarrow> x)"

definition num_or_null :: "real option \<Rightarrow> real option" where
  "num_or_null v = (case v of None \<Rightarrow> None | Some x \<Rightarrow> if x = 0 then None else Some x)"

text \<open>\<^verbatim>\<open>xs.slice(-n)\<close>: the last \<open>n\<close> elements, the whole array when it is shorter.\<close>

definition slice_last :: "nat \<Rightarrow> 'a list \<Rightarrow> 'a list" where
  "slice_last n xs = drop (length xs - n) xs"

section \<open>Data model\<close>

record candle =
  timestamp :: int
  open' :: real
  high :: real
  low :: real
  close :: real
  volume :: real

record macd_value =
  MACD :: real
  signal :: real
  histogram :: real

record bb_value =
  upper :: real
  middle :: real
  lower :: real

record stoch_value =
  stoch_k :: real
  stoch_d :: real

record indicators =
  rsi :: real
  macd :: macd_value
  bb :: bb_value
  sma20 :: real
  sma50 :: real
  sma200 :: real
  ema12 :: real
  ema26 :: real
  stoch :: stoch_value
  atr :: real

text \<open>
  A signal's description is a template literal; the number it formats with
  \<^verbatim>\<open>toFixed(2)\<close> is kept unrendered between the text before and after it.
\<close>

datatype descr = Lit string | Fmt string jsnum string

record signal =
  type :: string
  description :: descr

record sentiment_result =
  sentiment :: string
  score :: int

record 't analysis =
  symbol :: string
  currentPrice :: real
  volume24h :: real
  indicators' :: indicators
  signals :: "signal list"
  sentiment' :: sentiment_result
  support :: "real option"
  resistance :: "real option"
  timestamp' :: 't

text \<open>
  The \<^verbatim>\<open>technicalindicators\<close> package is not part of the repository: its
  \<^verbatim>\<open>calculate\<close> functions are parameters. Each returns its series or throws.
\<close>

record ti_lib =
  RSI_calculate :: "real list \<Rightarrow> nat \<Rightarrow> exn + real list"
  MACD_calculate :: "real list \<Rightarrow> nat \<Rightarrow> nat \<Rightarrow> nat \<Rightarrow> bool \<Rightarrow> bool \<Rightarrow> exn + macd_value list"
  BollingerBands_calculate :: "nat \<Rightarrow> real list \<Rightarrow> real \<Rightarrow> exn + bb_value list"
  SMA_calculate :: "nat \<Rightarrow> real list \<Rightarrow> exn + real list"
  EMA_calculate :: "nat \<Rightarrow> real list \<Rightarrow> exn + real list"
  Stochastic_calculate :: "real list \<Rightarrow> real list \<Rightarrow> real list \<Rightarrow> nat \<Rightarrow> nat \<Rightarrow> exn + stoch_value list"
  ATR_calculate :: "real list \<Rightarrow> real list \<Rightarrow> real list \<Rightarrow> nat \<Rightarrow> exn + real list"

text \<open>
  The exchange client (\<^verbatim>\<open>ccxt.binance\<close>) is external as well: one call of its
  \<^verbatim>\<open>fetchOHLCV(symbol, timeframe, undefined, limit)\<close> returns rows
  \<^verbatim>\<open>[time, open, high, low, close, volume]\<close> or throws.
\<close>

type_synonym ohlcv_row = "int \<times> real \<times> real \<times> real \<times> real \<times> real"

type_synonym exchange_client = "string \<Rightarrow> string \<Rightarrow> nat \<Rightarrow> exn + ohlcv_row list"

text \<open>The state of \<^verbatim>\<open>AdvancedCryptoBot\<close>: the fields its constructor sets.\<close>

record ('p, 'a) bot =
  exchange :: exchange_client
  watchlist :: "string list"
  portfolio :: 'p
  alerts :: "'a list"

text \<open>
  The constructor: \<^verbatim>\<open>new ccxt.binance()\<close> is the given client, the portfolio starts as
  the empty object, watchlist and alerts as empty arrays.
\<close>

definition new_AdvancedCryptoBot :: "exchange_client \<Rightarrow> 'p \<Rightarrow> ('p, 'a) bot" where
  "new_AdvancedCryptoBot binance empty_object =
     \<lparr>exchange = binance, watchlist = [], portfolio = empty_object, alerts = []\<rparr>"

section \<open>The bot's methods\<close>

subsection \<open>fetchOHLCV\<close>

definition fetchOHLCV :: "('p, 'a) bot \<Rightarrow> string \<Rightarrow> string \<Rightarrow> nat \<Rightarrow> candle list option" where
  "fetchOHLCV this symb timeframe limit =
     (case exchange this symb timeframe limit of
        Inl error \<Rightarrow> None
      | Inr ohlcv \<Rightarrow>
          Some (map (\<lambda>(t, o', h, l, c, v).
                  \<lparr>timestamp = t, open' = o', high = h, low = l, close = c, volume = v\<rparr>) ohlcv))"

subsection \<open>calculateIndicators\<close>

definition calculateIndicators_try :: "ti_lib \<Rightarrow> candle list \<Rightarrow> exn + indicators" where
  "calculateIndicators_try TI data =
     (let closes = map close data;
          highs = map high data;
          lows = map low data;
          volumes = map volume data
      in
        try_bind (RSI_calculate TI closes 14) (\<lambda>rsi_s.
        try_bind (MACD_calculate TI closes 12 26 9 False False) (\<lambda>macd_s.
        try_bind (BollingerBands_calculate TI 20 closes 2) (\<lambda>bb_s.
        try_bind (SMA_calculate TI 20 closes) (\<lambda>sma20_s.
        try_bind (SMA_calculate TI 50 closes) (\<lambda>sma50_s.
        try_bind (SMA_calculate TI 200 closes) (\<lambda>sma200_s.
        try_bind (EMA_calculate TI 12 closes) (\<lambda>ema12_s.
        try_bind (EMA_calculate TI 26 closes) (\<lambda>ema26_s.
        try_bind (Stochastic_calculate TI highs lows closes 14 3) (\<lambda>stoch_s.
        try_bind (ATR_calculate TI highs lows closes 14) (\<lambda>atr_s.
          Inr \<lparr>rsi = num_or (arr_last rsi_s) 0,
               macd = obj_or (arr_last macd_s) \<lparr>MACD = 0, signal = 0, histogram = 0\<rparr>,
               bb = obj_or (arr_last bb_s) \<lparr>upper = 0, middle = 0, lower = 0\<rparr>,
               sma20 = num_or (arr_last sma20_s) 0,
               sma50 = num_or (arr_last sma50_s) 0,
               sma200 = num_or (arr_last sma200_s) 0,
               ema12 = num_or (arr_last ema12_s) 0,
               ema26 = num_or (arr_last ema26_s) 0,
               stoch = obj_or (arr_last stoch_s) \<lparr>stoch_k = 0, stoch_d = 0\<rparr>,
               atr = num_or (arr_last atr_s) 0\<rparr>)))))))))))"

text \<open>The \<^verbatim>\<open>catch\<close> of calculateIndicators logs and returns \<^verbatim>\<open>null\<close>.\<close>

definition calculateIndicators :: "ti_lib \<Rightarrow> candle list \<Rightarrow> indicators option" where
  "calculateIndicators TI data =
     (case calculateIndicators_try TI data of Inl error \<Rightarrow> None | Inr ind \<Rightarrow> Some ind)"

subsection \<open>The four strategies\<close>

text \<open>
  \<^verbatim>\<open>data[data.length - 1].close\<close> throws a TypeError on an empty array; the RSI and
  Bollinger strategies read it before anything else.
\<close>

definition rsiDivergenceStrategy :: "candle list \<Rightarrow> indicators \<Rightarrow> exn + signal list" where
  "rsiDivergenceStrategy data ind =
     (let sigs = []; r = rsi ind in
      case arr_last data of
        None \<Rightarrow> Inl TypeError
      | Some latest \<Rightarrow>
          (let currentPrice = close latest in
           if r < 25 then
             Inr (sigs @ [\<lparr>type = ''STRONG BUY'',
                           description = Fmt ''RSI extremely oversold: '' (Fin r) ''''\<rparr>])
           else if r < 35 then
             Inr (sigs @ [\<lparr>type = ''BUY'',
                           description = Fmt ''RSI oversold: '' (Fin r) ''''\<rparr>])
           else if r > 75 then
             Inr (sigs @ [\<lparr>type = ''STRONG SELL'',
                           description = Fmt ''RSI extremely overbought: '' (Fin r) ''''\<rparr>])
           else if r > 65 then
             Inr (sigs @ [\<lparr>type = ''SELL'',
                           description = Fmt ''RSI overbought: '' (Fin r) ''''\<rparr>])
           else Inr sigs))"

definition macdCrossoverStrategy :: "candle list \<Rightarrow> indicators \<Rightarrow> signal list" where
  "macdCrossoverStrategy data ind =
     (let sigs = []; m = macd ind in
      if MACD m > signal m \<and> histogram m > 0 then
        sigs @ [\<lparr>type = ''BUY'', description = Lit ''MACD bullish crossover''\<rparr>]
      else if MACD m < signal m \<and> histogram m < 0 then
        sigs @ [\<lparr>type = ''SELL'', description = Lit ''MACD bearish crossover''\<rparr>]
      else sigs)"

definition bollingerBandsStrategy :: "candle list \<Rightarrow> indicators \<Rightarrow> exn + signal list" where
  "bollingerBandsStrategy data ind =
     (let sigs = [] in
      case arr_last data of
        None \<Rightarrow> Inl TypeError
      | Some latest \<Rightarrow>
          (let currentPrice = close latest; b = bb ind in
           if currentPrice < lower b then
             Inr (sigs @ [\<lparr>type = ''BUY'',
                           description = Lit ''Price broke below lower Bollinger Band''\<rparr>])
           else if currentPrice > upper b then
             Inr (sigs @ [\<lparr>type = ''SELL'',
                           description = Lit ''Price broke above upper Bollinger Band''\<rparr>])
           else Inr sigs))"

text \<open>
  volumeBreakoutStrategy returns early below 21 candles, so its two index reads are in
  range.
\<close>

definition avgVolume :: "candle list \<Rightarrow> real" where
  "avgVolume data = foldl (\<lambda>sum d. sum + volume d) 0 (slice_last 20 data) / 20"

definition priceChange :: "candle list \<Rightarrow> jsnum" where
  "priceChange data =
     (let current = data ! (length data - 1);
          previous = data ! (length data - 2)
      in js_mul (js_div (close current - close previous) (close previous)) 100)"

definition volumeBreakoutStrategy :: "candle list \<Rightarrow> signal list" where
  "volumeBreakoutStrategy data =
     (let sigs = [] in
      if length data < 21 then sigs
      else
        (let current = data ! (length data - 1) in
         if volume current > avgVolume data * 2 then
           (if js_gt (priceChange data) 2 then
              sigs @ [\<lparr>type = ''STRONG BUY'',
                       description = Fmt ''High volume breakout: '' (priceChange data) ''% move''\<rparr>]
            else if js_lt (priceChange data) (- 2) then
              sigs @ [\<lparr>type = ''STRONG SELL'',
                       description = Fmt ''High volume breakdown: '' (priceChange data) ''% move''\<rparr>]
            else sigs)
         else sigs))"

subsection \<open>analyzeSentiment\<close>

definition sentiment_step :: "int \<Rightarrow> signal \<Rightarrow> int" where
  "sentiment_step sc sg =
     (if str_includes (type sg) ''STRONG BUY'' \<or> str_includes (type sg) ''BULLISH'' then sc + 3
      else if str_includes (type sg) ''BUY'' then sc + 1
      else if str_includes (type sg) ''STRONG SELL'' \<or> str_includes (type sg) ''BEARISH'' then sc - 3
      else if str_includes (type sg) ''SELL'' then sc - 1
      else sc)"

definition analyzeSentiment :: "signal list \<Rightarrow> sentiment_result" where
  "analyzeSentiment sigs =
     (let sc = foldl sentiment_step 0 sigs;
          label =
            (if sc > 5 then ''VERY BULLISH''
             else if sc > 2 then ''BULLISH''
             else if sc < - 5 then ''VERY BEARISH''
             else if sc < - 2 then ''BEARISH''
             else ''NEUTRAL'')
      in \<lparr>sentiment = label, score = sc\<rparr>)"

subsection \<open>Support and resistance, inside analyzeCoin\<close>

text \<open>
  \<^verbatim>\<open>.sort((a, b) => a - b)\<close> sorts numbers ascending, \<^verbatim>\<open>(a, b) => b - a\<close>
  descending.
\<close>

definition resistanceLevels :: "candle list \<Rightarrow> real \<Rightarrow> real list" where
  "resistanceLevels recent50 price =
     sort (map high (filter (\<lambda>d. high d > price) recent50))"

definition supportLevels :: "candle list \<Rightarrow> real \<Rightarrow> real list" where
  "supportLevels recent50 price =
     rev (sort (map low (filter (\<lambda>d. low d < price) recent50)))"

subsection \<open>analyzeCoin\<close>

text \<open>
  The body of the \<^verbatim>\<open>try\<close> block. \<open>now\<close> is the value of \<^verbatim>\<open>new Date()\<close> at the
  end of the run.
\<close>

definition analyzeCoin_try :: "ti_lib \<Rightarrow> ('p, 'a) bot \<Rightarrow> 't \<Rightarrow> string \<Rightarrow> exn + 't analysis" where
  "analyzeCoin_try TI this now symb =
     (case fetchOHLCV this symb ''1h'' 500 of
        None \<Rightarrow> Inl (Error ''Insufficient data for analysis'')
      | Some data \<Rightarrow>
          if length data < 200 then Inl (Error ''Insufficient data for analysis'')
          else
            (case calculateIndicators TI data of
               None \<Rightarrow> Inl (Error ''Failed to calculate indicators'')
             | Some ind \<Rightarrow>
                 (case arr_last data of
                    None \<Rightarrow> Inl TypeError
                  | Some latest \<Rightarrow>
                      try_bind (rsiDivergenceStrategy data ind) (\<lambda>rsiSignals.
                      let macdSignals = macdCrossoverStrategy data ind in
                      try_bind (bollingerBandsStrategy data ind) (\<lambda>bbSignals.
                      let volumeSignals = volumeBreakoutStrategy data;
                          allSignals = rsiSignals @ macdSignals @ bbSignals @ volumeSignals;
                          sentimentData = analyzeSentiment allSignals;
                          recent50 = slice_last 50 data;
                          currentPrice = close latest
                      in Inr \<lparr>symbol = symb,
                              currentPrice = close latest,
                              volume24h = volume latest,
                              indicators' = ind,
                              signals = allSignals,
                              sentiment' = sentimentData,
                              support = num_or_null (arr_first (supportLevels recent50 currentPrice)),
                              resistance = num_or_null (arr_first (resistanceLevels recent50 currentPrice)),
                              timestamp' = now\<rparr>)))))"

text \<open>
  What a call hands to its caller: a returned value, or an exception that escapes. The
  \<^verbatim>\<open>catch\<close> of analyzeCoin logs and returns \<^verbatim>\<open>null\<close>.
\<close>

datatype 'r outcome = Returned 'r | Thrown exn

definition analyzeCoin :: "ti_lib \<Rightarrow> ('p, 'a) bot \<Rightarrow> 't \<Rightarrow> string \<Rightarrow> 't analysis option outcome" where
  "analyzeCoin TI this now symb =
     (case analyzeCoin_try TI this now symb of
        Inl error \<Rightarrow> Returned None
      | Inr result \<Rightarrow> Returned (Some result))"

section \<open>The watchlist routes\<close>

record watchlist_response =
  success :: bool
  watchlist_sent :: "string list"

text \<open>\<^verbatim>\<open>POST /api/watchlist/add\<close>: the response and the bot after the request.\<close>

definition post_watchlist_add :: "('p, 'a) bot \<Rightarrow> string \<Rightarrow> watchlist_response \<times> ('p, 'a) bot" where
  "post_watchlist_add cryptoBot symb =
     (let cryptoBot1 =
            (if \<not> arr_includes (watchlist cryptoBot) symb
             then cryptoBot\<lparr>watchlist := watchlist cryptoBot @ [symb]\<rparr>
             else cryptoBot)
      in (\<lparr>success = True, watchlist_sent = watchlist cryptoBot1\<rparr>, cryptoBot1))"

text \<open>\<^verbatim>\<open>DELETE /api/watchlist/:symbol\<close>.\<close>

definition delete_watchlist :: "('p, 'a) bot \<Rightarrow> string \<Rightarrow> watchlist_response \<times> ('p, 'a) bot" where
  "delete_watchlist cryptoBot symb =
     (let cryptoBot1 = cryptoBot\<lparr>watchlist := filter (\<lambda>s. s \<noteq> symb) (watchlist cryptoBot)\<rparr>
      in (\<lparr>success = True, watchlist_sent = watchlist cryptoBot1\<rparr>, cryptoBot1))"

section \<open>The specification's reading of the sentiment aggregator\<close>

text \<open>
  The contribution of one signal type and the label of a total score, as the specification
  words them; \<open>analyzeSentiment\<close> above is compared with them.
\<close>

definition spec_contribution :: "string \<Rightarrow> int" where
  "spec_contribution ty =
     (if str_includes ty ''STRONG BUY'' \<or> str_includes ty ''BULLISH'' then 3
      else if str_includes ty ''BUY'' then 1
      else if str_includes ty ''STRONG SELL'' \<or> str_includes ty ''BEARISH'' then - 3
      else if str_includes ty ''SELL'' then - 1
      else 0)"

definition spec_classify :: "int \<Rightarrow> string" where
  "spec_classify sc =
     (if sc > 5 then ''VERY BULLISH''
      else if sc > 2 then ''BULLISH''
      else if sc < - 5 then ''VERY BEARISH''
      else if sc < - 2 then ''BEARISH''
      else ''NEUTRAL'')"

section \<open>Names for what the claims speak of\<close>

text \<open>
  An internal computation error of the indicator engine: one of the ten library calls of
  calculateIndicators throws.
\<close>

definition ti_throws :: "ti_lib \<Rightarrow> candle list \<Rightarrow> bool" where
  "ti_throws TI data =
     (let closes = map close data; highs = map high data; lows = map low data in
      isl (RSI_calculate TI closes 14)
      \<or> isl (MACD_calculate TI closes 12 26 9 False False)
      \<or> isl (BollingerBands_calculate TI 20 closes 2)
      \<or> isl (SMA_calculate TI 20 closes)
      \<or> isl (SMA_calculate TI 50 closes)
      \<or> isl (SMA_calculate TI 200 closes)
      \<or> isl (EMA_calculate TI 12 closes)
      \<or> isl (EMA_calculate TI 26 closes)
      \<or> isl (Stochastic_calculate TI highs lows closes 14 3)
      \<or> isl (ATR_calculate TI highs lows closes 14))"

text \<open>
  The record analyzeCoin returns once both fallible strategies have returned their
  signals.
\<close>

definition assemble ::
  "string \<Rightarrow> candle list \<Rightarrow> indicators \<Rightarrow> signal list \<Rightarrow> signal list \<Rightarrow> 't \<Rightarrow> 't analysis" where
  "assemble symb data ind rsiSignals bbSignals now =
     \<lparr>symbol = symb,
      currentPrice = close (last data),
      volume24h = volume (last data),
      indicators' = ind,
      signals = rsiSignals @ macdCrossoverStrategy data ind @ bbSignals @ volumeBreakoutStrategy data,
      sentiment' = analyzeSentiment
        (rsiSignals @ macdCrossoverStrategy data ind @ bbSignals @ volumeBreakoutStrategy data),
      support = num_or_null (arr_first (supportLevels (slice_last 50 data) (close (last data)))),
      resistance = num_or_null (arr_first (resistanceLevels (slice_last 50 data) (close (last data)))),
      timestamp' = now\<rparr>"

text \<open>An analysis result apart from its timestamp field.\<close>

definition without_timestamp ::
  "'t analysis \<Rightarrow> string \<times> real \<times> real \<times> indicators \<times> signal list \<times> sentiment_result \<times> real option \<times> real option" where
  "without_timestamp r =
     (symbol r, currentPrice r, volume24h r, indicators' r, signals r, sentiment' r,
      support r, resistance r)"

text \<open>
  A sequence of requests to the two watchlist routes, served one after the other from a
  given bot.
\<close>

datatype request = Add string | Delete string

fun serve :: "('p, 'a) bot \<Rightarrow> request list \<Rightarrow> ('p, 'a) bot" where
  "serve cryptoBot [] = cryptoBot"
| "serve cryptoBot (Add s # reqs) = serve (snd (post_watchlist_add cryptoBot s)) reqs"
| "serve cryptoBot (Delete s # reqs) = serve (snd (delete_watchlist cryptoBot s)) reqs"

section \<open>Sample inputs\<close>

text \<open>Concrete candles and snapshots at which the theorems below are instantiated.\<close>

definition sample_indicators :: "real \<Rightarrow> indicators" where
  "sample_indicators r =
     \<lparr>rsi = r,
      macd = \<lparr>MACD = 1, signal = 1 / 2, histogram = 1 / 2\<rparr>,
      bb = \<lparr>upper = 110, middle = 100, lower = 90\<rparr>,
      sma20 = 100, sma50 = 100, sma200 = 100, ema12 = 100, ema26 = 100,
      stoch = \<lparr>stoch_k = 50, stoch_d = 50\<rparr>,
      atr = 1\<rparr>"

definition sample_candle :: "real \<Rightarrow> real \<Rightarrow> candle" where
  "sample_candle c v =
     \<lparr>timestamp = 0, open' = c, high = c + 5, low = c - 5, close = c, volume = v\<rparr>"


text \<open>
  A stand-in for the indicator package: every series is empty below its window and holds
  one fixed value from there on. \<open>throwing_ti\<close> throws in its last call.
\<close>

definition sample_ti :: ti_lib where
  "sample_ti =
     \<lparr>RSI_calculate = (\<lambda>values period. Inr (if length values \<le> period then [] else [20])),
      MACD_calculate = (\<lambda>values fast slow sig oscSimple sigSimple.
         Inr (if length values < slow then []
              else [\<lparr>MACD = 1, signal = 1 / 2, histogram = 1 / 2\<rparr>])),
      BollingerBands_calculate = (\<lambda>period values stdDev.
         Inr (if length values < period then []
              else [\<lparr>upper = 110, middle = 100, lower = 90\<rparr>])),
      SMA_calculate = (\<lambda>period values. Inr (if length values < period then [] else [100])),
      EMA_calculate = (\<lambda>period values. Inr (if length values < period then [] else [100])),
      Stochastic_calculate = (\<lambda>highs lows closes period signalPeriod.
         Inr (if length closes < period then [] else [\<lparr>stoch_k = 50, stoch_d = 50\<rparr>])),
      ATR_calculate = (\<lambda>highs lows closes period.
         Inr (if length closes \<le> period then [] else [1]))\<rparr>"

definition throwing_ti :: ti_lib where
  "throwing_ti =
     sample_ti\<lparr>ATR_calculate := (\<lambda>highs lows closes period. Inl (LibraryError ''ATR''))\<rparr>"

text \<open>
  Exchanges: one that answers every request with \<open>n\<close> rows closing at 100 followed by a
  row closing at \<open>c\<close> on a volume of 250, and one that throws.
\<close>

definition sample_exchange :: "nat \<Rightarrow> real \<Rightarrow> exchange_client" where
  "sample_exchange n c =
     (\<lambda>symb timeframe limit.
        Inr (replicate n (0, 100, 105, 95, 100, 1750 / 19) @ [(0, c, c + 5, c - 5, c, 250)]))"

definition failing_exchange :: exchange_client where
  "failing_exchange = (\<lambda>symb timeframe limit. Inl (Error ''network''))"

definition sample_window :: "nat \<Rightarrow> real \<Rightarrow> candle list" where
  "sample_window n c = replicate n (sample_candle 100 (1750 / 19)) @ [sample_candle c 250]"

text \<open>A fresh bot whose exchange answers with 200 candles.\<close>

definition sample_bot :: "(unit, unit) bot" where
  "sample_bot = new_AdvancedCryptoBot (sample_exchange 199 103) ()"

text \<open>
  A window of 200 candles that trades around 110 and whose last candle dips to a low of 0
  before closing at 100, the exchange that returns it, and a fresh bot around that
  exchange.
\<close>

definition crash_exchange :: exchange_client where
  "crash_exchange =
     (\<lambda>symb timeframe limit.
        Inr (replicate 199 (0, 110, 115, 105, 110, 100) @ [(0, 110, 110, 0, 100, 250)]))"

definition crash_window :: "candle list" where
  "crash_window =
     replicate 199 \<lparr>timestamp = 0, open' = 110, high = 115, low = 105, close = 110, volume = 100\<rparr>
     @ [\<lparr>timestamp = 0, open' = 110, high = 110, low = 0, close = 100, volume = 250\<rparr>]"

definition crash_bot :: "(unit, unit) bot" where
  "crash_bot = new_AdvancedCryptoBot crash_exchange ()"

section \<open>Sentiment aggregation\<close>

lemma sentiment_step_contribution:
  "sentiment_step sc sg = sc + spec_contribution (type sg)"
  by (simp add: sentiment_step_def spec_contribution_def)

lemma foldl_sentiment_step:
  "foldl sentiment_step sc sigs = sc + sum_list (map (\<lambda>sg. spec_contribution (type sg)) sigs)"
  by (induction sigs arbitrary: sc) (simp_all add: sentiment_step_contribution)

lemma contribution_values:
  "spec_contribution ''STRONG BUY'' = 3"
  "spec_contribution ''BUY'' = 1"
  "spec_contribution ''STRONG SELL'' = - 3"
  "spec_contribution ''SELL'' = - 1"
  by (simp_all add: spec_contribution_def)

text \<open>
  Claim C1. For every signal list, the score of \<open>analyzeSentiment\<close> is the sum of the
  per-signal contributions (+3 for a type containing STRONG BUY or BULLISH, else +1 for
  BUY, else -3 for STRONG SELL or BEARISH, else -1 for SELL, else 0), and the label is
  the classification of that score with strict comparisons (above 5 VERY BULLISH, above 2
  BULLISH, below -5 VERY BEARISH, below -2 BEARISH, else NEUTRAL). In particular
  [STRONG BUY, BUY] gives 4 and BULLISH, [STRONG BUY, STRONG BUY] gives 6 and VERY
  BULLISH, and the empty list gives 0 and NEUTRAL.
\<close>

theorem analyzeSentiment_score_and_label:
  "score (analyzeSentiment sigs) = sum_list (map (\<lambda>sg. spec_contribution (type sg)) sigs)
   \<and> sentiment (analyzeSentiment sigs) = spec_classify (score (analyzeSentiment sigs))
   \<and> analyzeSentiment [\<lparr>type = ''STRONG BUY'', description = d1\<rparr>, \<lparr>type = ''BUY'', description = d2\<rparr>]
       = \<lparr>sentiment = ''BULLISH'', score = 4\<rparr>
   \<and> analyzeSentiment [\<lparr>type = ''STRONG BUY'', description = d1\<rparr>, \<lparr>type = ''STRONG BUY'', description = d2\<rparr>]
       = \<lparr>sentiment = ''VERY BULLISH'', score = 6\<rparr>
   \<and> analyzeSentiment [] = \<lparr>sentiment = ''NEUTRAL'', score = 0\<rparr>"
proof -
  have sc: "score (analyzeSentiment xs) = sum_list (map (\<lambda>sg. spec_contribution (type sg)) xs)" for xs
    by (simp add: analyzeSentiment_def Let_def foldl_sentiment_step)
  have lb: "sentiment (analyzeSentiment xs) = spec_classify (score (analyzeSentiment xs))" for xs
    by (simp add: analyzeSentiment_def Let_def spec_classify_def)
  have eq: "analyzeSentiment xs = \<lparr>sentiment = spec_classify (score (analyzeSentiment xs)), score = score (analyzeSentiment xs)\<rparr>" for xs
    using lb [of xs] by (cases "analyzeSentiment xs") simp
  have e1: "analyzeSentiment [\<lparr>type = ''STRONG BUY'', description = d1\<rparr>, \<lparr>type = ''BUY'', description = d2\<rparr>]
       = \<lparr>sentiment = ''BULLISH'', score = 4\<rparr>"
    by (subst eq) (simp add: sc contribution_values spec_classify_def)
  have e2: "analyzeSentiment [\<lparr>type = ''STRONG BUY'', description = d1\<rparr>, \<lparr>type = ''STRONG BUY'', description = d2\<rparr>]
       = \<lparr>sentiment = ''VERY BULLISH'', score = 6\<rparr>"
    by (subst eq) (simp add: sc contribution_values spec_classify_def)
  have e3: "analyzeSentiment [] = \<lparr>sentiment = ''NEUTRAL'', score = 0\<rparr>"
    by (simp add: analyzeSentiment_def)
  show ?thesis using sc lb e1 e2 e3 by blast
qed

section \<open>The RSI strategy\<close>

text \<open>
  Claim C2. For every non-empty candle list and every indicator snapshot the RSI strategy
  returns, without throwing, at most one signal, fixed by the latest RSI value: below 25
  STRONG BUY, else below 35 BUY, else above 75 STRONG SELL, else above 65 SELL, and no
  signal from 35 to 65 inclusive. The comparisons are strict: an RSI of 65 gives no
  signal, an RSI of 65.1 gives SELL.
\<close>

theorem rsiDivergenceStrategy_thresholds:
  assumes "data \<noteq> []"
  shows "\<exists>sigs. rsiDivergenceStrategy data ind = Inr sigs
     \<and> length sigs \<le> 1
     \<and> (rsi ind < 25 \<longrightarrow> map type sigs = [''STRONG BUY''])
     \<and> (25 \<le> rsi ind \<and> rsi ind < 35 \<longrightarrow> map type sigs = [''BUY''])
     \<and> (75 < rsi ind \<longrightarrow> map type sigs = [''STRONG SELL''])
     \<and> (65 < rsi ind \<and> rsi ind \<le> 75 \<longrightarrow> map type sigs = [''SELL''])
     \<and> (35 \<le> rsi ind \<and> rsi ind \<le> 65 \<longrightarrow> sigs = [])
     \<and> (rsi ind = 65 \<longrightarrow> sigs = [])
     \<and> (rsi ind = 651 / 10 \<longrightarrow> map type sigs = [''SELL''])"
proof -
  from assms obtain latest where l: "arr_last data = Some latest"
    by (simp add: arr_last_def)
  show ?thesis
    by (simp add: rsiDivergenceStrategy_def l Let_def)
qed

theorem rsiDivergenceStrategy_thresholds_witness:
  "\<exists>sigs. rsiDivergenceStrategy [sample_candle 100 10] (sample_indicators (651 / 10)) = Inr sigs
     \<and> map type sigs = [''SELL'']"
proof -
  have ne: "[sample_candle 100 10] \<noteq> []" by simp
  have r: "rsi (sample_indicators (651 / 10)) = 651 / 10"
    by (simp add: sample_indicators_def)
  from rsiDivergenceStrategy_thresholds [OF ne, of "sample_indicators (651 / 10)"] r
  show ?thesis by auto
qed

section \<open>The MACD strategy\<close>

text \<open>
  Claim C6. For every indicator snapshot the MACD strategy emits BUY exactly when the MACD
  line is strictly above the signal line and the histogram is strictly positive, SELL
  exactly when the MACD line is strictly below the signal line and the histogram is
  strictly negative, and nothing in every other case; MACD 1.0, signal 0.5 and histogram
  0.5 give BUY, MACD 0.5, signal 1.0 and histogram -0.5 give SELL, MACD 1.0, signal 0.5
  and histogram -0.1 give nothing.
\<close>

theorem macdCrossoverStrategy_spec:
  "(map type (macdCrossoverStrategy data ind) = [''BUY''])
     = (MACD (macd ind) > signal (macd ind) \<and> histogram (macd ind) > 0)
   \<and> (map type (macdCrossoverStrategy data ind) = [''SELL''])
     = (MACD (macd ind) < signal (macd ind) \<and> histogram (macd ind) < 0)
   \<and> (macdCrossoverStrategy data ind = [])
     = (\<not> (MACD (macd ind) > signal (macd ind) \<and> histogram (macd ind) > 0)
        \<and> \<not> (MACD (macd ind) < signal (macd ind) \<and> histogram (macd ind) < 0))
   \<and> length (macdCrossoverStrategy data ind) \<le> 1
   \<and> map type (macdCrossoverStrategy data (ind\<lparr>macd := \<lparr>MACD = 1, signal = 1 / 2, histogram = 1 / 2\<rparr>\<rparr>)) = [''BUY'']
   \<and> map type (macdCrossoverStrategy data (ind\<lparr>macd := \<lparr>MACD = 1 / 2, signal = 1, histogram = - (1 / 2)\<rparr>\<rparr>)) = [''SELL'']
   \<and> macdCrossoverStrategy data (ind\<lparr>macd := \<lparr>MACD = 1, signal = 1 / 2, histogram = - (1 / 10)\<rparr>\<rparr>) = []"
  by (simp add: macdCrossoverStrategy_def Let_def)

section \<open>The volume breakout strategy\<close>







section \<open>The indicator engine\<close>

lemma try_bind_Inr_iff:
  "(try_bind m f = Inr y) = (\<exists>x. m = Inr x \<and> f x = Inr y)"
  by (cases m) (simp_all add: try_bind_def)

lemma last_or_defaults:
  "num_or (arr_last []) 0 = 0"
  "obj_or (arr_last []) d = d"
  by (simp_all add: num_or_def obj_or_def arr_last_def)

lemma calculateIndicators_try_Inr:
  "calculateIndicators_try TI data = Inr ind \<longleftrightarrow>
     (\<exists>rsi_s macd_s bb_s sma20_s sma50_s sma200_s ema12_s ema26_s stoch_s atr_s.
        RSI_calculate TI (map close data) 14 = Inr rsi_s
      \<and> MACD_calculate TI (map close data) 12 26 9 False False = Inr macd_s
      \<and> BollingerBands_calculate TI 20 (map close data) 2 = Inr bb_s
      \<and> SMA_calculate TI 20 (map close data) = Inr sma20_s
      \<and> SMA_calculate TI 50 (map close data) = Inr sma50_s
      \<and> SMA_calculate TI 200 (map close data) = Inr sma200_s
      \<and> EMA_calculate TI 12 (map close data) = Inr ema12_s
      \<and> EMA_calculate TI 26 (map close data) = Inr ema26_s
      \<and> Stochastic_calculate TI (map high data) (map low data) (map close data) 14 3 = Inr stoch_s
      \<and> ATR_calculate TI (map high data) (map low data) (map close data) 14 = Inr atr_s
      \<and> ind = \<lparr>rsi = num_or (arr_last rsi_s) 0,
               macd = obj_or (arr_last macd_s) \<lparr>MACD = 0, signal = 0, histogram = 0\<rparr>,
               bb = obj_or (arr_last bb_s) \<lparr>upper = 0, middle = 0, lower = 0\<rparr>,
               sma20 = num_or (arr_last sma20_s) 0,
               sma50 = num_or (arr_last sma50_s) 0,
               sma200 = num_or (arr_last sma200_s) 0,
               ema12 = num_or (arr_last ema12_s) 0,
               ema26 = num_or (arr_last ema26_s) 0,
               stoch = obj_or (arr_last stoch_s) \<lparr>stoch_k = 0, stoch_d = 0\<rparr>,
               atr = num_or (arr_last atr_s) 0\<rparr>)"
  unfolding calculateIndicators_try_def Let_def try_bind_Inr_iff
  by (simp add: eq_commute [of ind] cong: conj_cong)

lemma not_isl_iff: "(\<not> isl m) = (\<exists>x. m = Inr x)"
  by (cases m) simp_all

lemma calculateIndicators_try_succeeds:
  "(\<exists>ind. calculateIndicators_try TI data = Inr ind) = (\<not> ti_throws TI data)"
  unfolding calculateIndicators_try_Inr ti_throws_def Let_def de_Morgan_disj not_isl_iff
  by blast

lemma calculateIndicators_None_iff:
  "(calculateIndicators TI data = None) = ti_throws TI data"
proof -
  have "(calculateIndicators TI data = None) = (\<not> (\<exists>ind. calculateIndicators_try TI data = Inr ind))"
    by (cases "calculateIndicators_try TI data") (simp_all add: calculateIndicators_def)
  then show ?thesis by (simp add: calculateIndicators_try_succeeds)
qed

lemma calculateIndicators_Some_iff:
  "(calculateIndicators TI data = Some ind) = (calculateIndicators_try TI data = Inr ind)"
  by (cases "calculateIndicators_try TI data") (simp_all add: calculateIndicators_def)

lemma sample_ti_short:
  "length data < 12 \<Longrightarrow> \<not> ti_throws sample_ti data"
  "length data < 12 \<Longrightarrow> RSI_calculate sample_ti (map close data) 14 = Inr []"
  "length data < 12 \<Longrightarrow> MACD_calculate sample_ti (map close data) 12 26 9 False False = Inr []"
  "length data < 12 \<Longrightarrow> BollingerBands_calculate sample_ti 20 (map close data) 2 = Inr []"
  "length data < 12 \<Longrightarrow> SMA_calculate sample_ti p (map close data) = Inr (if length data < p then [] else [100])"
  "length data < 12 \<Longrightarrow> EMA_calculate sample_ti p (map close data) = Inr (if length data < p then [] else [100])"
  "length data < 12 \<Longrightarrow> Stochastic_calculate sample_ti (map high data) (map low data) (map close data) 14 3 = Inr []"
  "length data < 12 \<Longrightarrow> ATR_calculate sample_ti (map high data) (map low data) (map close data) 14 = Inr []"
  by (simp_all add: sample_ti_def ti_throws_def)

lemma throwing_ti_throws: "ti_throws throwing_ti data"
  by (simp add: throwing_ti_def ti_throws_def)

lemma sample_ti_long:
  assumes "200 \<le> length data"
  shows "calculateIndicators sample_ti data = Some (sample_indicators 20)"
proof -
  have "calculateIndicators_try sample_ti data = Inr (sample_indicators 20)"
    unfolding calculateIndicators_try_Inr using assms
    by (simp add: sample_ti_def sample_indicators_def num_or_def obj_or_def arr_last_def)
  then show ?thesis by (simp add: calculateIndicators_Some_iff)
qed

text \<open>
  Claim C7. The indicator engine fails exactly when one of its library calls throws, for a
  candle list of any length: a short input alone never makes it fail. When no call throws
  it returns a snapshot in which every indicator whose series came back empty holds its
  zero default: 0 for RSI, the SMAs, the EMAs and ATR, and zero-filled records for MACD,
  the Bollinger Bands and the Stochastic.
\<close>

theorem calculateIndicators_degrades:
  "(calculateIndicators TI data = None) = ti_throws TI data
   \<and> (\<not> ti_throws TI data \<longrightarrow>
        (\<exists>ind. calculateIndicators TI data = Some ind
           \<and> (RSI_calculate TI (map close data) 14 = Inr [] \<longrightarrow> rsi ind = 0)
           \<and> (MACD_calculate TI (map close data) 12 26 9 False False = Inr [] \<longrightarrow>
                macd ind = \<lparr>MACD = 0, signal = 0, histogram = 0\<rparr>)
           \<and> (BollingerBands_calculate TI 20 (map close data) 2 = Inr [] \<longrightarrow>
                bb ind = \<lparr>upper = 0, middle = 0, lower = 0\<rparr>)
           \<and> (SMA_calculate TI 20 (map close data) = Inr [] \<longrightarrow> sma20 ind = 0)
           \<and> (SMA_calculate TI 50 (map close data) = Inr [] \<longrightarrow> sma50 ind = 0)
           \<and> (SMA_calculate TI 200 (map close data) = Inr [] \<longrightarrow> sma200 ind = 0)
           \<and> (EMA_calculate TI 12 (map close data) = Inr [] \<longrightarrow> ema12 ind = 0)
           \<and> (EMA_calculate TI 26 (map close data) = Inr [] \<longrightarrow> ema26 ind = 0)
           \<and> (Stochastic_calculate TI (map high data) (map low data) (map close data) 14 3 = Inr [] \<longrightarrow>
                stoch ind = \<lparr>stoch_k = 0, stoch_d = 0\<rparr>)
           \<and> (ATR_calculate TI (map high data) (map low data) (map close data) 14 = Inr [] \<longrightarrow>
                atr ind = 0)))"
proof (intro conjI impI)
  show "(calculateIndicators TI data = None) = ti_throws TI data"
    by (rule calculateIndicators_None_iff)
next
  assume "\<not> ti_throws TI data"
  then obtain ind where ok: "calculateIndicators_try TI data = Inr ind"
    using calculateIndicators_try_succeeds [of TI data] by blast
  then have some: "calculateIndicators TI data = Some ind"
    by (simp add: calculateIndicators_Some_iff)
  from ok [unfolded calculateIndicators_try_Inr]
  obtain rsi_s macd_s bb_s sma20_s sma50_s sma200_s ema12_s ema26_s stoch_s atr_s where
    s: "RSI_calculate TI (map close data) 14 = Inr rsi_s"
       "MACD_calculate TI (map close data) 12 26 9 False False = Inr macd_s"
       "BollingerBands_calculate TI 20 (map close data) 2 = Inr bb_s"
       "SMA_calculate TI 20 (map close data) = Inr sma20_s"
       "SMA_calculate TI 50 (map close data) = Inr sma50_s"
       "SMA_calculate TI 200 (map close data) = Inr sma200_s"
       "EMA_calculate TI 12 (map close data) = Inr ema12_s"
       "EMA_calculate TI 26 (map close data) = Inr ema26_s"
       "Stochastic_calculate TI (map high data) (map low data) (map close data) 14 3 = Inr stoch_s"
       "ATR_calculate TI (map high data) (map low data) (map close data) 14 = Inr atr_s"
    and i: "ind = \<lparr>rsi = num_or (arr_last rsi_s) 0,
               macd = obj_or (arr_last macd_s) \<lparr>MACD = 0, signal = 0, histogram = 0\<rparr>,
               bb = obj_or (arr_last bb_s) \<lparr>upper = 0, middle = 0, lower = 0\<rparr>,
               sma20 = num_or (arr_last sma20_s) 0,
               sma50 = num_or (arr_last sma50_s) 0,
               sma200 = num_or (arr_last sma200_s) 0,
               ema12 = num_or (arr_last ema12_s) 0,
               ema26 = num_or (arr_last ema26_s) 0,
               stoch = obj_or (arr_last stoch_s) \<lparr>stoch_k = 0, stoch_d = 0\<rparr>,
               atr = num_or (arr_last atr_s) 0\<rparr>"
    by blast
  show "\<exists>ind. calculateIndicators TI data = Some ind
           \<and> (RSI_calculate TI (map close data) 14 = Inr [] \<longrightarrow> rsi ind = 0)
           \<and> (MACD_calculate TI (map close data) 12 26 9 False False = Inr [] \<longrightarrow>
                macd ind = \<lparr>MACD = 0, signal = 0, histogram = 0\<rparr>)
           \<and> (BollingerBands_calculate TI 20 (map close data) 2 = Inr [] \<longrightarrow>
                bb ind = \<lparr>upper = 0, middle = 0, lower = 0\<rparr>)
           \<and> (SMA_calculate TI 20 (map close data) = Inr [] \<longrightarrow> sma20 ind = 0)
           \<and> (SMA_calculate TI 50 (map close data) = Inr [] \<longrightarrow> sma50 ind = 0)
           \<and> (SMA_calculate TI 200 (map close data) = Inr [] \<longrightarrow> sma200 ind = 0)
           \<and> (EMA_calculate TI 12 (map close data) = Inr [] \<longrightarrow> ema12 ind = 0)
           \<and> (EMA_calculate TI 26 (map close data) = Inr [] \<longrightarrow> ema26 ind = 0)
           \<and> (Stochastic_calculate TI (map high data) (map low data) (map close data) 14 3 = Inr [] \<longrightarrow>
                stoch ind = \<lparr>stoch_k = 0, stoch_d = 0\<rparr>)
           \<and> (ATR_calculate TI (map high data) (map low data) (map close data) 14 = Inr [] \<longrightarrow>
                atr ind = 0)"
    by (rule exI [of _ ind]) (simp add: some s i last_or_defaults)
qed

theorem calculateIndicators_degrades_witness:
  "\<not> ti_throws sample_ti [sample_candle 100 10]
   \<and> calculateIndicators sample_ti [sample_candle 100 10]
       = Some \<lparr>rsi = 0,
               macd = \<lparr>MACD = 0, signal = 0, histogram = 0\<rparr>,
               bb = \<lparr>upper = 0, middle = 0, lower = 0\<rparr>,
               sma20 = 0, sma50 = 0, sma200 = 0, ema12 = 0, ema26 = 0,
               stoch = \<lparr>stoch_k = 0, stoch_d = 0\<rparr>,
               atr = 0\<rparr>
   \<and> ti_throws throwing_ti [sample_candle 100 10]
   \<and> calculateIndicators throwing_ti [sample_candle 100 10] = None"
proof -
  have l: "length [sample_candle 100 10] < 12" by simp
  note f = sample_ti_short [OF l]
  from calculateIndicators_degrades [of sample_ti "[sample_candle 100 10]"] f(1)
  obtain ind where ind: "calculateIndicators sample_ti [sample_candle 100 10] = Some ind"
    and z: "rsi ind = 0" "macd ind = \<lparr>MACD = 0, signal = 0, histogram = 0\<rparr>"
      "bb ind = \<lparr>upper = 0, middle = 0, lower = 0\<rparr>" "sma20 ind = 0" "sma50 ind = 0"
      "sma200 ind = 0" "ema12 ind = 0" "ema26 ind = 0"
      "stoch ind = \<lparr>stoch_k = 0, stoch_d = 0\<rparr>" "atr ind = 0"
    using f(2-4) f(5) [of 20] f(5) [of 50] f(5) [of 200] f(6) [of 12] f(6) [of 26] f(7,8)
    by auto
  have "ind = \<lparr>rsi = 0,
               macd = \<lparr>MACD = 0, signal = 0, histogram = 0\<rparr>,
               bb = \<lparr>upper = 0, middle = 0, lower = 0\<rparr>,
               sma20 = 0, sma50 = 0, sma200 = 0, ema12 = 0, ema26 = 0,
               stoch = \<lparr>stoch_k = 0, stoch_d = 0\<rparr>,
               atr = 0\<rparr>"
    using z by (cases ind) simp
  moreover have "calculateIndicators throwing_ti [sample_candle 100 10] = None"
    using calculateIndicators_degrades [of throwing_ti "[sample_candle 100 10]"] throwing_ti_throws
    by simp
  ultimately show ?thesis using ind f(1) throwing_ti_throws by simp
qed

section \<open>The analysis orchestrator\<close>

lemma rsiDivergenceStrategy_returns:
  assumes "data \<noteq> []"
  shows "\<exists>sigs. rsiDivergenceStrategy data ind = Inr sigs \<and> length sigs \<le> 1"
proof -
  from assms obtain latest where "arr_last data = Some latest"
    by (simp add: arr_last_def)
  then show ?thesis by (simp add: rsiDivergenceStrategy_def Let_def)
qed

lemma bollingerBandsStrategy_returns:
  assumes "data \<noteq> []"
  shows "\<exists>sigs. bollingerBandsStrategy data ind = Inr sigs \<and> length sigs \<le> 1"
proof -
  from assms obtain latest where "arr_last data = Some latest"
    by (simp add: arr_last_def)
  then show ?thesis by (simp add: bollingerBandsStrategy_def Let_def)
qed

lemma rsiDivergenceStrategy_length:
  "rsiDivergenceStrategy data ind = Inr sigs \<Longrightarrow> length sigs \<le> 1"
  by (auto simp add: rsiDivergenceStrategy_def Let_def split: option.splits if_splits)

lemma bollingerBandsStrategy_length:
  "bollingerBandsStrategy data ind = Inr sigs \<Longrightarrow> length sigs \<le> 1"
  by (auto simp add: bollingerBandsStrategy_def Let_def split: option.splits if_splits)

lemma macdCrossoverStrategy_length: "length (macdCrossoverStrategy data ind) \<le> 1"
  by (simp add: macdCrossoverStrategy_def Let_def)

lemma volumeBreakoutStrategy_length: "length (volumeBreakoutStrategy data) \<le> 1"
  by (simp add: volumeBreakoutStrategy_def Let_def)

lemma analyzeCoin_try_Inr:
  "analyzeCoin_try TI this now symb = Inr r \<longleftrightarrow>
     (\<exists>data ind rsiSignals bbSignals.
        fetchOHLCV this symb ''1h'' 500 = Some data
      \<and> 200 \<le> length data
      \<and> calculateIndicators TI data = Some ind
      \<and> rsiDivergenceStrategy data ind = Inr rsiSignals
      \<and> bollingerBandsStrategy data ind = Inr bbSignals
      \<and> r = assemble symb data ind rsiSignals bbSignals now)"
proof (cases "fetchOHLCV this symb ''1h'' 500")
  case None
  then show ?thesis by (simp add: analyzeCoin_try_def)
next
  case (Some data)
  note f = this
  show ?thesis
  proof (cases "length data < 200")
    case True
    then show ?thesis using f by (simp add: analyzeCoin_try_def)
  next
    case False
    then have ne: "data \<noteq> []" by auto
    then have al: "arr_last data = Some (last data)" by (simp add: arr_last_def)
    show ?thesis
    proof (cases "calculateIndicators TI data")
      case None
      then show ?thesis using f False by (simp add: analyzeCoin_try_def)
    next
      case (Some ind)
      then show ?thesis using f False al
        by (auto simp add: analyzeCoin_try_def Let_def try_bind_Inr_iff assemble_def)
    qed
  qed
qed

lemma analyzeCoin_Some_iff:
  "(analyzeCoin TI this now symb = Returned (Some r)) = (analyzeCoin_try TI this now symb = Inr r)"
  by (cases "analyzeCoin_try TI this now symb") (simp_all add: analyzeCoin_def)

lemma analyzeCoin_returns: "\<exists>r. analyzeCoin TI this now symb = Returned r"
  by (cases "analyzeCoin_try TI this now symb") (simp_all add: analyzeCoin_def)

lemma analyzeCoin_succeeds:
  assumes "fetchOHLCV this symb ''1h'' 500 = Some data" "200 \<le> length data"
    "calculateIndicators TI data = Some ind"
  shows "\<exists>rsiSignals bbSignals.
           rsiDivergenceStrategy data ind = Inr rsiSignals
         \<and> bollingerBandsStrategy data ind = Inr bbSignals
         \<and> analyzeCoin TI this now symb
             = Returned (Some (assemble symb data ind rsiSignals bbSignals now))"
proof -
  from assms(2) have ne: "data \<noteq> []" by auto
  from rsiDivergenceStrategy_returns [OF ne, of ind]
  obtain rs where rs: "rsiDivergenceStrategy data ind = Inr rs" by blast
  from bollingerBandsStrategy_returns [OF ne, of ind]
  obtain bs where bs: "bollingerBandsStrategy data ind = Inr bs" by blast
  have "analyzeCoin_try TI this now symb = Inr (assemble symb data ind rs bs now)"
    unfolding analyzeCoin_try_Inr using assms rs bs by blast
  then show ?thesis using rs bs by (auto simp add: analyzeCoin_Some_iff)
qed

lemma fetchOHLCV_None_iff:
  "(fetchOHLCV this symb timeframe limit = None) = isl (exchange this symb timeframe limit)"
  by (cases "exchange this symb timeframe limit") (simp_all add: fetchOHLCV_def)

lemma fetchOHLCV_sample:
  "fetchOHLCV (new_AdvancedCryptoBot (sample_exchange n c) p) symb timeframe limit
     = Some (sample_window n c)"
  by (simp add: fetchOHLCV_def new_AdvancedCryptoBot_def sample_exchange_def sample_window_def
      sample_candle_def)

lemma fetchOHLCV_failing:
  "isl (exchange (new_AdvancedCryptoBot failing_exchange p) symb timeframe limit)"
  by (simp add: new_AdvancedCryptoBot_def failing_exchange_def)

lemma length_sample_window: "length (sample_window n c) = Suc n"
  by (simp add: sample_window_def)

lemma sample_bot_fetch:
  "fetchOHLCV sample_bot symb ''1h'' 500 = Some (sample_window 199 103)"
  "200 \<le> length (sample_window 199 103)"
  "calculateIndicators sample_ti (sample_window 199 103) = Some (sample_indicators 20)"
  by (simp_all add: sample_bot_def fetchOHLCV_sample length_sample_window sample_ti_long)

text \<open>
  Claim C3. For every symbol analyzeCoin returns to its caller and never lets an exception
  escape, and it returns the no-result value \<^verbatim>\<open>null\<close>, not a partial record, whenever
  the candle fetch fails, fewer than 200 candles come back, or the indicator engine fails.
  A record it does return is complete: it exists only when at least 200 candles were
  fetched and the indicators computed, and it carries them.
\<close>

theorem analyzeCoin_no_result:
  "(\<exists>r. analyzeCoin TI this now symb = Returned r)
   \<and> (isl (exchange this symb ''1h'' 500) \<longrightarrow> analyzeCoin TI this now symb = Returned None)
   \<and> (\<forall>data. fetchOHLCV this symb ''1h'' 500 = Some data \<and> length data < 200 \<longrightarrow>
         analyzeCoin TI this now symb = Returned None)
   \<and> (\<forall>data. fetchOHLCV this symb ''1h'' 500 = Some data \<and> calculateIndicators TI data = None \<longrightarrow>
         analyzeCoin TI this now symb = Returned None)
   \<and> (\<forall>r. analyzeCoin TI this now symb = Returned (Some r) \<longrightarrow>
         (\<exists>data ind. fetchOHLCV this symb ''1h'' 500 = Some data \<and> 200 \<le> length data
            \<and> calculateIndicators TI data = Some ind \<and> indicators' r = ind
            \<and> symbol r = symb \<and> currentPrice r = close (last data)
            \<and> volume24h r = volume (last data)
            \<and> sentiment' r = analyzeSentiment (signals r) \<and> timestamp' r = now))"
proof (intro conjI allI impI)
  show "\<exists>r. analyzeCoin TI this now symb = Returned r"
    by (rule analyzeCoin_returns)
next
  assume "isl (exchange this symb ''1h'' 500)"
  then have "fetchOHLCV this symb ''1h'' 500 = None"
    by (simp add: fetchOHLCV_None_iff)
  then show "analyzeCoin TI this now symb = Returned None"
    by (simp add: analyzeCoin_def analyzeCoin_try_def)
next
  fix data
  assume "fetchOHLCV this symb ''1h'' 500 = Some data \<and> length data < 200"
  then show "analyzeCoin TI this now symb = Returned None"
    by (simp add: analyzeCoin_def analyzeCoin_try_def)
next
  fix data
  assume "fetchOHLCV this symb ''1h'' 500 = Some data \<and> calculateIndicators TI data = None"
  then show "analyzeCoin TI this now symb = Returned None"
    by (simp add: analyzeCoin_def analyzeCoin_try_def)
next
  fix r
  assume "analyzeCoin TI this now symb = Returned (Some r)"
  then have "analyzeCoin_try TI this now symb = Inr r"
    by (simp add: analyzeCoin_Some_iff)
  then obtain data ind rs bs where
    d: "fetchOHLCV this symb ''1h'' 500 = Some data" "200 \<le> length data"
       "calculateIndicators TI data = Some ind"
    and r: "r = assemble symb data ind rs bs now"
    unfolding analyzeCoin_try_Inr by blast
  have "indicators' r = ind \<and> symbol r = symb \<and> currentPrice r = close (last data)
      \<and> volume24h r = volume (last data)
      \<and> sentiment' r = analyzeSentiment (signals r) \<and> timestamp' r = now"
    by (simp add: r assemble_def)
  with d show "\<exists>data ind. fetchOHLCV this symb ''1h'' 500 = Some data \<and> 200 \<le> length data
            \<and> calculateIndicators TI data = Some ind \<and> indicators' r = ind
            \<and> symbol r = symb \<and> currentPrice r = close (last data)
            \<and> volume24h r = volume (last data)
            \<and> sentiment' r = analyzeSentiment (signals r) \<and> timestamp' r = now"
    by blast
qed

theorem analyzeCoin_no_result_witness:
  "analyzeCoin sample_ti (new_AdvancedCryptoBot failing_exchange ()) (0 :: int) ''BTC/USDT'' = Returned None
   \<and> fetchOHLCV (new_AdvancedCryptoBot (sample_exchange 20 103) ()) ''BTC/USDT'' ''1h'' 500
        = Some (sample_window 20 103)
   \<and> length (sample_window 20 103) < 200
   \<and> analyzeCoin sample_ti (new_AdvancedCryptoBot (sample_exchange 20 103) ()) (0 :: int) ''BTC/USDT''
        = Returned None
   \<and> fetchOHLCV (new_AdvancedCryptoBot (sample_exchange 199 103) ()) ''BTC/USDT'' ''1h'' 500
        = Some (sample_window 199 103)
   \<and> calculateIndicators throwing_ti (sample_window 199 103) = None
   \<and> analyzeCoin throwing_ti (new_AdvancedCryptoBot (sample_exchange 199 103) ()) (0 :: int) ''BTC/USDT''
        = Returned None
   \<and> (\<exists>r. analyzeCoin sample_ti sample_bot (0 :: int) ''BTC/USDT'' = Returned (Some r)
        \<and> indicators' r = sample_indicators 20 \<and> timestamp' r = 0)"
proof -
  have a: "analyzeCoin sample_ti (new_AdvancedCryptoBot failing_exchange ()) (0 :: int) ''BTC/USDT'' = Returned None"
    using analyzeCoin_no_result [of sample_ti "new_AdvancedCryptoBot failing_exchange ()" "0 :: int" "''BTC/USDT''"]
      fetchOHLCV_failing [of "()" "''BTC/USDT''" "''1h''" 500]
    by blast
  have l20: "length (sample_window 20 103) < 200"
    by (simp add: length_sample_window)
  have b: "analyzeCoin sample_ti (new_AdvancedCryptoBot (sample_exchange 20 103) ()) (0 :: int) ''BTC/USDT''
        = Returned None"
    using analyzeCoin_no_result [of sample_ti "new_AdvancedCryptoBot (sample_exchange 20 103) ()" "0 :: int" "''BTC/USDT''"]
      fetchOHLCV_sample [of 20 103 "()" "''BTC/USDT''" "''1h''" 500] l20
    by blast
  have t: "calculateIndicators throwing_ti (sample_window 199 103) = None"
    by (simp add: calculateIndicators_None_iff throwing_ti_throws)
  have c: "analyzeCoin throwing_ti (new_AdvancedCryptoBot (sample_exchange 199 103) ()) (0 :: int) ''BTC/USDT''
        = Returned None"
    using analyzeCoin_no_result [of throwing_ti "new_AdvancedCryptoBot (sample_exchange 199 103) ()" "0 :: int" "''BTC/USDT''"]
      fetchOHLCV_sample [of 199 103 "()" "''BTC/USDT''" "''1h''" 500] t
    by blast
  from analyzeCoin_succeeds [OF sample_bot_fetch, where symb = "''BTC/USDT''" and now = "0 :: int"]
  obtain r where r: "analyzeCoin sample_ti sample_bot (0 :: int) ''BTC/USDT'' = Returned (Some r)"
    by blast
  from analyzeCoin_no_result [where TI = sample_ti and this = sample_bot and now = "0 :: int"
      and symb = "''BTC/USDT''"] r
  obtain data ind where "fetchOHLCV sample_bot ''BTC/USDT'' ''1h'' 500 = Some data"
    "calculateIndicators sample_ti data = Some ind" "indicators' r = ind" "timestamp' r = 0"
    by blast
  then have "indicators' r = sample_indicators 20 \<and> timestamp' r = 0"
    using sample_bot_fetch(1) [of "''BTC/USDT''"] sample_bot_fetch(3) by auto
  with r have s: "\<exists>r. analyzeCoin sample_ti sample_bot (0 :: int) ''BTC/USDT'' = Returned (Some r)
        \<and> indicators' r = sample_indicators 20 \<and> timestamp' r = 0"
    by blast
  show ?thesis using a b c t l20 s by (simp add: fetchOHLCV_sample)
qed

section \<open>Determinism\<close>

lemma without_timestamp_assemble:
  "without_timestamp (assemble symb data ind rs bs now1)
     = without_timestamp (assemble symb data ind rs bs now2)"
  by (simp add: without_timestamp_def assemble_def)

lemma fetchOHLCV_exchange_only:
  "exchange this1 = exchange this2 \<Longrightarrow>
     fetchOHLCV this1 symb timeframe limit = fetchOHLCV this2 symb timeframe limit"
  by (simp add: fetchOHLCV_def)

lemma analyzeCoin_try_exchange_only:
  assumes "exchange this1 = exchange this2"
  shows "map_sum id without_timestamp (analyzeCoin_try TI this1 now1 symb)
       = map_sum id without_timestamp (analyzeCoin_try TI this2 now2 symb)"
proof -
  have f: "fetchOHLCV this1 symb ''1h'' 500 = fetchOHLCV this2 symb ''1h'' 500"
    using assms by (rule fetchOHLCV_exchange_only)
  show ?thesis
    by (simp add: analyzeCoin_try_def f Let_def try_bind_def without_timestamp_def
        split: option.splits sum.splits)
qed

text \<open>
  Claim C8. The pipeline carries no hidden state: the indicator computation on identical
  input gives identical snapshots, and two runs of analyzeCoin whose exchange returns the
  same candles agree on every field of the result but the timestamp, whatever the
  watchlist, portfolio and alerts of the bot and whatever the clock. On a window of at
  least 200 candles whose indicators compute, both runs return a result.
\<close>

theorem analyzeCoin_deterministic:
  assumes "exchange this1 = exchange this2"
  shows "(data1 = data2 \<longrightarrow> calculateIndicators TI data1 = calculateIndicators TI data2)
   \<and> map_outcome (map_option without_timestamp) (analyzeCoin TI this1 now1 symb)
       = map_outcome (map_option without_timestamp) (analyzeCoin TI this2 now2 symb)
   \<and> (\<forall>data ind. fetchOHLCV this1 symb ''1h'' 500 = Some data \<and> 200 \<le> length data
          \<and> calculateIndicators TI data = Some ind \<longrightarrow>
        (\<exists>r1 r2. analyzeCoin TI this1 now1 symb = Returned (Some r1)
           \<and> analyzeCoin TI this2 now2 symb = Returned (Some r2)
           \<and> without_timestamp r1 = without_timestamp r2
           \<and> indicators' r1 = ind \<and> indicators' r2 = ind
           \<and> timestamp' r1 = now1 \<and> timestamp' r2 = now2))"
proof (intro conjI allI impI)
  assume "data1 = data2"
  then show "calculateIndicators TI data1 = calculateIndicators TI data2" by simp
next
  show "map_outcome (map_option without_timestamp) (analyzeCoin TI this1 now1 symb)
       = map_outcome (map_option without_timestamp) (analyzeCoin TI this2 now2 symb)"
    using analyzeCoin_try_exchange_only [OF assms, of TI now1 symb now2]
    by (cases "analyzeCoin_try TI this1 now1 symb"; cases "analyzeCoin_try TI this2 now2 symb")
       (simp_all add: analyzeCoin_def)
next
  fix data ind
  assume a: "fetchOHLCV this1 symb ''1h'' 500 = Some data \<and> 200 \<le> length data
          \<and> calculateIndicators TI data = Some ind"
  then have f2: "fetchOHLCV this2 symb ''1h'' 500 = Some data"
    using fetchOHLCV_exchange_only [OF assms, of symb "''1h''" 500] by simp
  from a analyzeCoin_succeeds [of this1 symb data TI ind now1]
  obtain rs bs where rs: "rsiDivergenceStrategy data ind = Inr rs"
    and bs: "bollingerBandsStrategy data ind = Inr bs"
    and r1: "analyzeCoin TI this1 now1 symb = Returned (Some (assemble symb data ind rs bs now1))"
    by blast
  from a f2 analyzeCoin_succeeds [of this2 symb data TI ind now2] rs bs
  have r2: "analyzeCoin TI this2 now2 symb = Returned (Some (assemble symb data ind rs bs now2))"
    by auto
  show "\<exists>r1 r2. analyzeCoin TI this1 now1 symb = Returned (Some r1)
           \<and> analyzeCoin TI this2 now2 symb = Returned (Some r2)
           \<and> without_timestamp r1 = without_timestamp r2
           \<and> indicators' r1 = ind \<and> indicators' r2 = ind
           \<and> timestamp' r1 = now1 \<and> timestamp' r2 = now2"
    using r1 r2 without_timestamp_assemble [of symb data ind rs bs now1 now2]
    by (simp add: assemble_def)
qed

theorem analyzeCoin_deterministic_witness:
  "exchange sample_bot = exchange (snd (post_watchlist_add sample_bot ''ETH/USDT''))
   \<and> watchlist sample_bot \<noteq> watchlist (snd (post_watchlist_add sample_bot ''ETH/USDT''))
   \<and> (\<exists>r1 r2.
         analyzeCoin sample_ti sample_bot (0 :: int) ''BTC/USDT'' = Returned (Some r1)
       \<and> analyzeCoin sample_ti (snd (post_watchlist_add sample_bot ''ETH/USDT'')) (1 :: int) ''BTC/USDT''
           = Returned (Some r2)
       \<and> without_timestamp r1 = without_timestamp r2
       \<and> timestamp' r1 = 0 \<and> timestamp' r2 = 1)"
proof -
  have e: "exchange sample_bot = exchange (snd (post_watchlist_add sample_bot ''ETH/USDT''))"
    by (simp add: post_watchlist_add_def Let_def)
  have w: "watchlist sample_bot \<noteq> watchlist (snd (post_watchlist_add sample_bot ''ETH/USDT''))"
    by (simp add: post_watchlist_add_def Let_def sample_bot_def new_AdvancedCryptoBot_def)
  from analyzeCoin_deterministic [OF e, where TI = sample_ti and ?now1.0 = "0 :: int"
      and symb = "''BTC/USDT''" and ?now2.0 = "1 :: int"]
    sample_bot_fetch(1) [of "''BTC/USDT''"] sample_bot_fetch(2,3)
  have "\<exists>r1 r2.
         analyzeCoin sample_ti sample_bot (0 :: int) ''BTC/USDT'' = Returned (Some r1)
       \<and> analyzeCoin sample_ti (snd (post_watchlist_add sample_bot ''ETH/USDT'')) (1 :: int) ''BTC/USDT''
           = Returned (Some r2)
       \<and> without_timestamp r1 = without_timestamp r2
       \<and> timestamp' r1 = 0 \<and> timestamp' r2 = 1"
    by blast
  with e w show ?thesis by blast
qed

section \<open>Signal count and score range\<close>

lemma spec_contribution_bounds: "- 3 \<le> spec_contribution ty \<and> spec_contribution ty \<le> 3"
  by (simp add: spec_contribution_def)

lemma sum_contribution_bounds:
  "- 3 * int (length sigs) \<le> sum_list (map (\<lambda>sg. spec_contribution (type sg)) sigs)
   \<and> sum_list (map (\<lambda>sg. spec_contribution (type sg)) sigs) \<le> 3 * int (length sigs)"
proof (induction sigs)
  case Nil
  show ?case by simp
next
  case (Cons sg sigs)
  then show ?case using spec_contribution_bounds [of "type sg"] by simp
qed

lemma analyzeSentiment_score_bounds:
  "- 3 * int (length sigs) \<le> score (analyzeSentiment sigs)
   \<and> score (analyzeSentiment sigs) \<le> 3 * int (length sigs)"
  using sum_contribution_bounds [of sigs]
  by (simp add: analyzeSentiment_def Let_def foldl_sentiment_step)

text \<open>
  Claim C9. Every strategy returns at most one signal per call, so the combined signal
  list of one analysis has at most 4 elements and its sentiment score lies between -12
  and 12.
\<close>

theorem strategies_at_most_one_signal:
  "(\<forall>sigs. rsiDivergenceStrategy data ind = Inr sigs \<longrightarrow> length sigs \<le> 1)
   \<and> length (macdCrossoverStrategy data ind) \<le> 1
   \<and> (\<forall>sigs. bollingerBandsStrategy data ind = Inr sigs \<longrightarrow> length sigs \<le> 1)
   \<and> length (volumeBreakoutStrategy data) \<le> 1
   \<and> (\<forall>r. analyzeCoin TI this now symb = Returned (Some r) \<longrightarrow>
         length (signals r) \<le> 4
       \<and> - 12 \<le> score (sentiment' r) \<and> score (sentiment' r) \<le> 12)"
proof (intro conjI allI impI)
  fix sigs assume "rsiDivergenceStrategy data ind = Inr sigs"
  then show "length sigs \<le> 1" by (rule rsiDivergenceStrategy_length)
next
  show "length (macdCrossoverStrategy data ind) \<le> 1" by (rule macdCrossoverStrategy_length)
next
  fix sigs assume "bollingerBandsStrategy data ind = Inr sigs"
  then show "length sigs \<le> 1" by (rule bollingerBandsStrategy_length)
next
  show "length (volumeBreakoutStrategy data) \<le> 1" by (rule volumeBreakoutStrategy_length)
next
  fix r assume "analyzeCoin TI this now symb = Returned (Some r)"
  then have "analyzeCoin_try TI this now symb = Inr r" by (simp add: analyzeCoin_Some_iff)
  then obtain d i rs bs where
    rs: "rsiDivergenceStrategy d i = Inr rs" and bs: "bollingerBandsStrategy d i = Inr bs"
    and r: "r = assemble symb d i rs bs now"
    unfolding analyzeCoin_try_Inr by blast
  have len: "length (signals r) \<le> 4"
    using rsiDivergenceStrategy_length [OF rs] bollingerBandsStrategy_length [OF bs]
      macdCrossoverStrategy_length [of d i] volumeBreakoutStrategy_length [of d]
    by (simp add: r assemble_def)
  have sen: "sentiment' r = analyzeSentiment (signals r)"
    by (simp add: r assemble_def)
  from analyzeSentiment_score_bounds [of "signals r"] len
  have "- 12 \<le> score (sentiment' r) \<and> score (sentiment' r) \<le> 12"
    by (simp add: sen)
  with len show "length (signals r) \<le> 4" "- 12 \<le> score (sentiment' r)" "score (sentiment' r) \<le> 12"
    by simp_all
qed

theorem strategies_at_most_one_signal_witness:
  "(\<exists>sigs. rsiDivergenceStrategy (sample_window 199 103) (sample_indicators 20) = Inr sigs
        \<and> length sigs \<le> 1)
   \<and> (\<exists>sigs. bollingerBandsStrategy (sample_window 199 103) (sample_indicators 20) = Inr sigs
        \<and> length sigs \<le> 1)
   \<and> (\<exists>r. analyzeCoin sample_ti sample_bot (0 :: int) ''BTC/USDT'' = Returned (Some r)
        \<and> length (signals r) \<le> 4
        \<and> - 12 \<le> score (sentiment' r) \<and> score (sentiment' r) \<le> 12)"
proof -
  note t = strategies_at_most_one_signal [where data = "sample_window 199 103"
      and ind = "sample_indicators 20" and TI = sample_ti and this = sample_bot
      and now = "0 :: int" and symb = "''BTC/USDT''"]
  have ne: "sample_window 199 103 \<noteq> []" by (simp add: sample_window_def)
  from rsiDivergenceStrategy_returns [OF ne, of "sample_indicators 20"] t
  have a: "\<exists>sigs. rsiDivergenceStrategy (sample_window 199 103) (sample_indicators 20) = Inr sigs
        \<and> length sigs \<le> 1" by blast
  from bollingerBandsStrategy_returns [OF ne, of "sample_indicators 20"] t
  have b: "\<exists>sigs. bollingerBandsStrategy (sample_window 199 103) (sample_indicators 20) = Inr sigs
        \<and> length sigs \<le> 1" by blast
  from analyzeCoin_succeeds [OF sample_bot_fetch, where symb = "''BTC/USDT''" and now = "0 :: int"]
  obtain r where "analyzeCoin sample_ti sample_bot (0 :: int) ''BTC/USDT'' = Returned (Some r)"
    by blast
  with t have c: "\<exists>r. analyzeCoin sample_ti sample_bot (0 :: int) ''BTC/USDT'' = Returned (Some r)
        \<and> length (signals r) \<le> 4
        \<and> - 12 \<le> score (sentiment' r) \<and> score (sentiment' r) \<le> 12"
    by blast
  from a b c show ?thesis by blast
qed

section \<open>Support and resistance\<close>

text \<open>
  The first element of each sorted list is the nearest level: the smallest high strictly
  above the price, the largest low strictly below it, and there is none exactly when no
  candle qualifies. The values analyzeCoin returns pass through \<^verbatim>\<open>|| null\<close>
  afterwards.
\<close>

lemma arr_first_sorted:
  assumes "sorted ys"
  shows "(arr_first ys = Some y) = (y \<in> set ys \<and> (\<forall>z \<in> set ys. y \<le> z))"
proof (cases ys)
  case Nil
  then show ?thesis by (simp add: arr_first_def)
next
  case (Cons a as)
  with assms show ?thesis by (auto simp add: arr_first_def)
qed

lemma arr_first_rev_sorted:
  assumes "sorted ys"
  shows "(arr_first (rev ys) = Some y) = (y \<in> set ys \<and> (\<forall>z \<in> set ys. z \<le> y))"
proof -
  have "sorted_wrt (\<lambda>a b. b \<le> a) (rev ys)"
    using assms by (simp add: sorted_wrt_rev)
  then show ?thesis
    by (cases "rev ys") (auto simp add: arr_first_def dest: arg_cong [where f = set])
qed

lemma arr_first_None: "(arr_first ys = None) = (ys = [])"
  by (cases ys) (simp_all add: arr_first_def)

lemma nearest_resistance:
  "(arr_first (resistanceLevels recent50 price) = Some h)
     = ((\<exists>d \<in> set recent50. high d = h \<and> price < h)
        \<and> (\<forall>d \<in> set recent50. price < high d \<longrightarrow> h \<le> high d))"
  unfolding resistanceLevels_def
  by (subst arr_first_sorted) auto

lemma nearest_support:
  "(arr_first (supportLevels recent50 price) = Some l)
     = ((\<exists>d \<in> set recent50. low d = l \<and> l < price)
        \<and> (\<forall>d \<in> set recent50. low d < price \<longrightarrow> low d \<le> l))"
  unfolding supportLevels_def
  by (subst arr_first_rev_sorted) auto

lemma sort_Nil_iff: "(sort xs = []) = (xs = [])"
proof -
  have "length (sort xs) = length xs" by simp
  then show ?thesis by (metis length_0_conv)
qed

lemma no_level:
  "(arr_first (resistanceLevels recent50 price) = None) = (\<forall>d \<in> set recent50. \<not> price < high d)"
  "(arr_first (supportLevels recent50 price) = None) = (\<forall>d \<in> set recent50. \<not> low d < price)"
  by (auto simp add: arr_first_None resistanceLevels_def supportLevels_def sort_Nil_iff filter_empty_conv)

lemma locator_example:
  "num_or_null (arr_first (resistanceLevels
      [\<lparr>timestamp = 0, open' = 100, high = 105, low = 90, close = 100, volume = 1\<rparr>,
       \<lparr>timestamp = 1, open' = 100, high = 110, low = 95, close = 100, volume = 1\<rparr>,
       \<lparr>timestamp = 2, open' = 100, high = 120, low = 98, close = 100, volume = 1\<rparr>] 100)) = Some 105"
  "num_or_null (arr_first (supportLevels
      [\<lparr>timestamp = 0, open' = 100, high = 105, low = 90, close = 100, volume = 1\<rparr>,
       \<lparr>timestamp = 1, open' = 100, high = 110, low = 95, close = 100, volume = 1\<rparr>,
       \<lparr>timestamp = 2, open' = 100, high = 120, low = 98, close = 100, volume = 1\<rparr>] 100)) = Some 98"
  by (simp_all add: resistanceLevels_def supportLevels_def arr_first_def num_or_null_def)

lemma crash_window_facts:
  "length crash_window = 200"
  "last crash_window = \<lparr>timestamp = 0, open' = 110, high = 110, low = 0, close = 100, volume = 250\<rparr>"
  "slice_last 50 crash_window =
     replicate 49 \<lparr>timestamp = 0, open' = 110, high = 115, low = 105, close = 110, volume = 100\<rparr>
     @ [\<lparr>timestamp = 0, open' = 110, high = 110, low = 0, close = 100, volume = 250\<rparr>]"
  by (simp_all add: crash_window_def slice_last_def)

lemma crash_support:
  "supportLevels (slice_last 50 crash_window) 100 = [0]"
  "num_or_null (arr_first (supportLevels (slice_last 50 crash_window) 100)) = None"
  by (simp_all add: crash_window_facts supportLevels_def arr_first_def num_or_null_def)

lemma crash_fetch:
  "fetchOHLCV crash_bot symb timeframe limit = Some crash_window"
  by (simp add: crash_bot_def new_AdvancedCryptoBot_def fetchOHLCV_def crash_exchange_def
      crash_window_def)

lemma crash_levels:
  "num_or_null (arr_first (resistanceLevels (slice_last 50 crash_window) 100)) = Some 110"
proof -
  have "arr_first (resistanceLevels (slice_last 50 crash_window) 100) = Some 110"
    unfolding nearest_resistance by (simp add: crash_window_facts)
  then show ?thesis by (simp add: num_or_null_def)
qed

text \<open>
  Claim C4. The claim: resistance is the smallest high strictly above the current price
  among the trailing 50 candles, support the largest low strictly below it, and a side is
  null exactly when no candle qualifies. The code at a window whose last candle has a low
  of 0 and closes at 100, every other low of the trailing 50 being 105: that candle
  qualifies for support and 0 is the largest qualifying low, yet analyzeCoin returns
  \<^verbatim>\<open>null\<close> as support, because \<^verbatim>\<open>supportLevels[0] || null\<close> takes the number 0 for a
  missing value. Resistance, 110, is returned as the claim says.
\<close>

theorem support_null_on_zero_low:
  "fetchOHLCV crash_bot ''BTC/USDT'' ''1h'' 500 = Some crash_window
   \<and> last crash_window \<in> set (slice_last 50 crash_window)
   \<and> low (last crash_window) = 0
   \<and> close (last crash_window) = 100
   \<and> (\<exists>r. analyzeCoin sample_ti crash_bot (0 :: int) ''BTC/USDT'' = Returned (Some r)
        \<and> currentPrice r = 100
        \<and> resistance r = Some 110
        \<and> support r = None)"
proof -
  have len: "200 \<le> length crash_window" by (simp add: crash_window_facts)
  have ind: "calculateIndicators sample_ti crash_window = Some (sample_indicators 20)"
    using len by (rule sample_ti_long)
  from analyzeCoin_succeeds [OF crash_fetch len ind, where symb = "''BTC/USDT''" and now = "0 :: int"]
  obtain rs bs where
    r: "analyzeCoin sample_ti crash_bot (0 :: int) ''BTC/USDT''
          = Returned (Some (assemble ''BTC/USDT'' crash_window (sample_indicators 20) rs bs 0))"
    by blast
  have c: "close (last crash_window) = 100" "low (last crash_window) = 0"
    by (simp_all add: crash_window_facts)
  have f: "currentPrice (assemble ''BTC/USDT'' crash_window (sample_indicators 20) rs bs (0 :: int)) = 100"
    "resistance (assemble ''BTC/USDT'' crash_window (sample_indicators 20) rs bs (0 :: int)) = Some 110"
    "support (assemble ''BTC/USDT'' crash_window (sample_indicators 20) rs bs (0 :: int)) = None"
    by (simp_all add: assemble_def c crash_levels crash_support(2))
  have m: "last crash_window \<in> set (slice_last 50 crash_window)"
    by (simp add: crash_window_facts)
  have e: "\<exists>r. analyzeCoin sample_ti crash_bot (0 :: int) ''BTC/USDT'' = Returned (Some r)
        \<and> currentPrice r = 100
        \<and> resistance r = Some 110
        \<and> support r = None"
    by (rule exI [of _ "assemble ''BTC/USDT'' crash_window (sample_indicators 20) rs bs 0"])
       (intro conjI r f)
  show ?thesis by (intro conjI crash_fetch m c e)
qed

section \<open>The watchlist\<close>

lemma arr_includes_set: "arr_includes xs x = (x \<in> set xs)"
  by (induction xs) auto

lemma post_watchlist_add_watchlist:
  "watchlist (snd (post_watchlist_add b s))
     = (if s \<in> set (watchlist b) then watchlist b else watchlist b @ [s])"
  by (simp add: post_watchlist_add_def Let_def arr_includes_set)

lemma delete_watchlist_watchlist:
  "watchlist (snd (delete_watchlist b s)) = filter (\<lambda>x. x \<noteq> s) (watchlist b)"
  by (simp add: delete_watchlist_def Let_def)

lemma serve_distinct:
  "distinct (watchlist b) \<Longrightarrow> distinct (watchlist (serve b reqs))"
proof (induction b reqs rule: serve.induct)
  case (1 cryptoBot)
  then show ?case by simp
next
  case (2 cryptoBot s reqs)
  then show ?case by (simp add: post_watchlist_add_watchlist)
next
  case (3 cryptoBot s reqs)
  then show ?case by (simp add: delete_watchlist_watchlist)
qed

text \<open>
  Claim C10. Adding a symbol that is already on the watchlist leaves the bot unchanged,
  adding twice is the same as adding once, and the watchlist after an add holds the
  previous symbols and the added one; a watchlist without duplicates stays so, hence
  the watchlist of a bot served any sequence of add and delete requests from its
  construction never holds a duplicate. Deleting a symbol leaves exactly the previous
  elements different from it, in their order.
\<close>

theorem watchlist_set_semantics:
  "(arr_includes (watchlist b) s \<longrightarrow> snd (post_watchlist_add b s) = b)
   \<and> snd (post_watchlist_add (snd (post_watchlist_add b s)) s) = snd (post_watchlist_add b s)
   \<and> set (watchlist (snd (post_watchlist_add b s))) = insert s (set (watchlist b))
   \<and> (distinct (watchlist b) \<longrightarrow> distinct (watchlist (snd (post_watchlist_add b s))))
   \<and> distinct (watchlist (serve (new_AdvancedCryptoBot ex p) reqs))
   \<and> watchlist (snd (delete_watchlist b s)) = filter (\<lambda>x. x \<noteq> s) (watchlist b)
   \<and> set (watchlist (snd (delete_watchlist b s))) = set (watchlist b) - {s}"
proof (intro conjI impI)
  assume "arr_includes (watchlist b) s"
  then show "snd (post_watchlist_add b s) = b"
    by (simp add: post_watchlist_add_def Let_def)
next
  show "snd (post_watchlist_add (snd (post_watchlist_add b s)) s) = snd (post_watchlist_add b s)"
    by (simp add: post_watchlist_add_def Let_def arr_includes_set)
next
  show "set (watchlist (snd (post_watchlist_add b s))) = insert s (set (watchlist b))"
    by (auto simp add: post_watchlist_add_watchlist)
next
  assume "distinct (watchlist b)"
  then show "distinct (watchlist (snd (post_watchlist_add b s)))"
    by (simp add: post_watchlist_add_watchlist)
next
  have "distinct (watchlist (new_AdvancedCryptoBot ex p))"
    by (simp add: new_AdvancedCryptoBot_def)
  then show "distinct (watchlist (serve (new_AdvancedCryptoBot ex p) reqs))"
    by (rule serve_distinct)
next
  show "watchlist (snd (delete_watchlist b s)) = filter (\<lambda>x. x \<noteq> s) (watchlist b)"
    by (rule delete_watchlist_watchlist)
next
  show "set (watchlist (snd (delete_watchlist b s))) = set (watchlist b) - {s}"
    by (auto simp add: delete_watchlist_watchlist)
qed

theorem watchlist_set_semantics_witness:
  "arr_includes (watchlist (serve sample_bot [Add ''BTC/USDT'', Add ''ETH/USDT''])) ''BTC/USDT''
   \<and> watchlist (serve sample_bot [Add ''BTC/USDT'', Add ''ETH/USDT'']) = [''BTC/USDT'', ''ETH/USDT'']
   \<and> distinct (watchlist (serve sample_bot [Add ''BTC/USDT'', Add ''ETH/USDT'']))
   \<and> snd (post_watchlist_add (serve sample_bot [Add ''BTC/USDT'', Add ''ETH/USDT'']) ''BTC/USDT'')
       = serve sample_bot [Add ''BTC/USDT'', Add ''ETH/USDT'']
   \<and> watchlist (serve sample_bot [Add ''BTC/USDT'', Add ''ETH/USDT'', Add ''BTC/USDT''])
       = [''BTC/USDT'', ''ETH/USDT'']
   \<and> watchlist (serve sample_bot [Add ''BTC/USDT'', Add ''ETH/USDT'', Delete ''BTC/USDT''])
       = [''ETH/USDT'']"
proof -
  have w: "watchlist (serve sample_bot [Add ''BTC/USDT'', Add ''ETH/USDT'']) = [''BTC/USDT'', ''ETH/USDT'']"
    by (simp add: sample_bot_def new_AdvancedCryptoBot_def post_watchlist_add_def Let_def)
  have i: "arr_includes (watchlist (serve sample_bot [Add ''BTC/USDT'', Add ''ETH/USDT''])) ''BTC/USDT''"
    unfolding w by simp
  have d: "distinct (watchlist (serve sample_bot [Add ''BTC/USDT'', Add ''ETH/USDT'']))"
    unfolding w by simp
  have t: "arr_includes (watchlist (serve sample_bot [Add ''BTC/USDT'', Add ''ETH/USDT''])) ''BTC/USDT'' \<longrightarrow>
      snd (post_watchlist_add (serve sample_bot [Add ''BTC/USDT'', Add ''ETH/USDT'']) ''BTC/USDT'')
       = serve sample_bot [Add ''BTC/USDT'', Add ''ETH/USDT'']"
    by (rule watchlist_set_semantics [where b = "serve sample_bot [Add ''BTC/USDT'', Add ''ETH/USDT'']"
      and s = "''BTC/USDT''", THEN conjunct1])
  from t i have a: "snd (post_watchlist_add (serve sample_bot [Add ''BTC/USDT'', Add ''ETH/USDT'']) ''BTC/USDT'')
       = serve sample_bot [Add ''BTC/USDT'', Add ''ETH/USDT'']"
    by (rule mp)
  have a3: "watchlist (serve sample_bot [Add ''BTC/USDT'', Add ''ETH/USDT'', Add ''BTC/USDT''])
       = [''BTC/USDT'', ''ETH/USDT'']"
    by (simp add: sample_bot_def new_AdvancedCryptoBot_def post_watchlist_add_def Let_def)
  have d3: "watchlist (serve sample_bot [Add ''BTC/USDT'', Add ''ETH/USDT'', Delete ''BTC/USDT''])
       = [''ETH/USDT'']"
    by (simp add: sample_bot_def new_AdvancedCryptoBot_def post_watchlist_add_def
        delete_watchlist_def Let_def)
  show ?thesis by (intro conjI i w d a a3 d3)
qed

end
